theory Spec2Isabelle
  imports Main "HOL-Library.AList"
begin

unbundle bit_operations_syntax

section \<open>Python exceptions\<close>

text \<open>
  An exception is its class together with the text \<open>str(e)\<close>. The classes are the ones
  \<open>stitcher_cli.py\<close> raises itself, the ones the table library and the file system raise
  under it, \<open>ConfigError\<close> of the parameter model, and two generic ones for whatever
  the stitching engine raises: \<open>OtherException name\<close> derives from \<open>Exception\<close>,
  \<open>OtherBaseException name\<close> (such as \<open>KeyboardInterrupt\<close>) does not.
\<close>

datatype exc_class =
    FileNotFoundError
  | IsADirectoryError
  | ParserError
  | ValueError
  | TypeError
  | KeyError
  | OverflowError
  | ConfigError
  | OtherException string
  | OtherBaseException string

type_synonym exception = "exc_class \<times> string"

text \<open>What \<open>except Exception\<close> catches.\<close>

fun is_Exception :: "exc_class \<Rightarrow> bool" where
  "is_Exception (OtherBaseException _) = False"
| "is_Exception _ = True"

text \<open>Sequencing of calls that may raise: the first exception ends the computation.\<close>

definition bind :: "exception + 'a \<Rightarrow> ('a \<Rightarrow> exception + 'b) \<Rightarrow> exception + 'b" where
  "bind m f = (case m of Inl e \<Rightarrow> Inl e | Inr x \<Rightarrow> f x)"

section \<open>The table library: columns and data frames\<close>

text \<open>
  \<open>pd.read_csv\<close> gives every column one of five dtypes. A \<open>float64\<close> cell is NaN (an
  empty field), an infinity, or the finite value \<open>m / 2 ^ k\<close> (every finite double has
  this form). An \<open>object\<close> cell is the field's text, a float NaN for an empty field, a
  Python bool (a boolean column with empty fields), or the Python int that
  \<open>fillna(0)\<close> puts there.
\<close>

datatype float64 = FNaN | FInf bool | FVal int nat

datatype pyobj = PyStr string | PyNaN | PyInt int | PyBool bool

datatype series =
    SInt64 "int list"
  | SUInt64 "nat list"
  | SFloat64 "float64 list"
  | SBool "bool list"
  | SObject "pyobj list"

type_synonym dataframe = "(string \<times> series) list"

fun series_len :: "series \<Rightarrow> nat" where
  "series_len (SInt64 xs) = length xs"
| "series_len (SUInt64 xs) = length xs"
| "series_len (SFloat64 xs) = length xs"
| "series_len (SBool xs) = length xs"
| "series_len (SObject xs) = length xs"

text \<open>\<open>df.columns\<close> and \<open>len(df)\<close>.\<close>

definition df_columns :: "dataframe \<Rightarrow> string list" where
  "df_columns df = map fst df"

fun nrows :: "dataframe \<Rightarrow> nat" where
  "nrows [] = 0"
| "nrows ((c, s) # df) = series_len s"

text \<open>
  The invariant of a data frame: column labels are distinct and all columns have the
  same length.
\<close>

definition wf_dataframe :: "dataframe \<Rightarrow> bool" where
  "wf_dataframe df \<longleftrightarrow>
     distinct (df_columns df) \<and> list_all (\<lambda>(c, s). series_len s = nrows df) df"

text \<open>\<open>df[col]\<close> raises KeyError for an unknown label; \<open>df[col] = s\<close> replaces the
  column in place or appends it.\<close>

definition py_repr :: "string \<Rightarrow> string" where
  "py_repr s = [CHR 0x27] @ s @ [CHR 0x27]"

definition getitem :: "dataframe \<Rightarrow> string \<Rightarrow> exception + series" where
  "getitem df col =
     (case map_of df col of None \<Rightarrow> Inl (KeyError, py_repr col) | Some s \<Rightarrow> Inr s)"

definition setitem :: "dataframe \<Rightarrow> string \<Rightarrow> series \<Rightarrow> dataframe" where
  "setitem df col s = AList.update col s df"

subsection \<open>64-bit integers\<close>

text \<open>The value of an \<open>int64\<close> computation: the two's-complement wrap-around of the
  mathematical result.\<close>

definition wrap_int64 :: "int \<Rightarrow> int" where
  "wrap_int64 x = (x + 2 ^ 63) mod 2 ^ 64 - 2 ^ 63"

definition in_int64 :: "int \<Rightarrow> bool" where
  "in_int64 x \<longleftrightarrow> - (2 ^ 63) \<le> x \<and> x < 2 ^ 63"

subsection \<open>\<open>Series.fillna(0)\<close>\<close>

fun fillna0_float :: "float64 \<Rightarrow> float64" where
  "fillna0_float FNaN = FVal 0 0"
| "fillna0_float x = x"

fun fillna0_obj :: "pyobj \<Rightarrow> pyobj" where
  "fillna0_obj PyNaN = PyInt 0"
| "fillna0_obj x = x"

fun fillna0 :: "series \<Rightarrow> series" where
  "fillna0 (SFloat64 xs) = SFloat64 (map fillna0_float xs)"
| "fillna0 (SObject xs) = SObject (map fillna0_obj xs)"
| "fillna0 s = s"

subsection \<open>\<open>int(str)\<close>\<close>

text \<open>
  Python's \<open>int\<close> on text: surrounding white space is dropped, then an optional sign,
  then decimal digits, where single underscores may stand between digits.
\<close>

definition is_py_space :: "char \<Rightarrow> bool" where
  "is_py_space c \<longleftrightarrow>
     c \<in> set [CHR 0x09, CHR 0x0A, CHR 0x0B, CHR 0x0C, CHR 0x0D,
              CHR 0x1C, CHR 0x1D, CHR 0x1E, CHR 0x1F, CHR 0x20]"

definition py_strip :: "string \<Rightarrow> string" where
  "py_strip s = rev (dropWhile is_py_space (rev (dropWhile is_py_space s)))"

definition digit_val :: "char \<Rightarrow> nat option" where
  "digit_val c =
     (let n = (of_char c :: nat) in if 48 \<le> n \<and> n \<le> 57 then Some (n - 48) else None)"

fun py_digits :: "nat \<Rightarrow> string \<Rightarrow> nat option" where
  "py_digits acc [] = Some acc"
| "py_digits acc (c # cs) =
     (if c = CHR ''_'' then
        (case cs of
           [] \<Rightarrow> None
         | d # _ \<Rightarrow> if digit_val d = None then None else py_digits acc cs)
      else
        (case digit_val c of
           None \<Rightarrow> None
         | Some v \<Rightarrow> py_digits (acc * 10 + v) cs))"

definition py_nat_of_str :: "string \<Rightarrow> nat option" where
  "py_nat_of_str s =
     (case s of
        [] \<Rightarrow> None
      | c # _ \<Rightarrow> if digit_val c = None then None else py_digits 0 s)"

definition py_int_of_str :: "string \<Rightarrow> int option" where
  "py_int_of_str s =
     (case py_strip s of
        [] \<Rightarrow> None
      | c # r \<Rightarrow>
          if c = CHR ''-'' then map_option (\<lambda>n. - int n) (py_nat_of_str r)
          else if c = CHR ''+'' then map_option int (py_nat_of_str r)
          else map_option int (py_nat_of_str (c # r)))"

subsection \<open>\<open>Series.astype(int)\<close>\<close>

text \<open>
  The cast of one cell to \<open>int64\<close>. A finite float is truncated towards zero, without
  any error; a value beyond the \<open>int64\<close> range gives the smallest \<open>int64\<close>, as the
  conversion instruction of x86-64 does. The library refuses a float column that holds a
  NaN or an infinity before any cell is cast.
\<close>

definition trunc_float :: "int \<Rightarrow> nat \<Rightarrow> int" where
  "trunc_float m k = (if 0 \<le> m then m div 2 ^ k else - ((- m) div 2 ^ k))"

fun is_finite :: "float64 \<Rightarrow> bool" where
  "is_finite (FVal m k) = True"
| "is_finite _ = False"

fun float_to_int64 :: "float64 \<Rightarrow> int" where
  "float_to_int64 (FVal m k) =
     (let t = trunc_float m k in if in_int64 t then t else - (2 ^ 63))"
| "float_to_int64 _ = - (2 ^ 63)"

fun obj_to_int64 :: "pyobj \<Rightarrow> exception + int" where
  "obj_to_int64 (PyStr s) =
     (case py_int_of_str s of
        None \<Rightarrow> Inl (ValueError, ''invalid literal for int() with base 10: '' @ py_repr s)
      | Some n \<Rightarrow>
          if in_int64 n then Inr n
          else Inl (OverflowError, ''Python int too large to convert to C long''))"
| "obj_to_int64 PyNaN = Inl (ValueError, ''cannot convert float NaN to integer'')"
| "obj_to_int64 (PyInt n) =
     (if in_int64 n then Inr n
      else Inl (OverflowError, ''Python int too large to convert to C long''))"
| "obj_to_int64 (PyBool b) = Inr (if b then 1 else 0)"

fun objs_to_int64 :: "pyobj list \<Rightarrow> exception + int list" where
  "objs_to_int64 [] = Inr []"
| "objs_to_int64 (x # xs) =
     bind (obj_to_int64 x) (\<lambda>n. bind (objs_to_int64 xs) (\<lambda>ns. Inr (n # ns)))"

fun astype_int :: "series \<Rightarrow> exception + int list" where
  "astype_int (SInt64 xs) = Inr xs"
| "astype_int (SUInt64 xs) = Inr (map (\<lambda>n. wrap_int64 (int n)) xs)"
| "astype_int (SFloat64 xs) =
     (if list_all is_finite xs then Inr (map float_to_int64 xs)
      else Inl (ValueError, ''Cannot convert non-finite values (NA or inf) to integer''))"
| "astype_int (SBool xs) = Inr (map (\<lambda>b. if b then 1 else 0) xs)"
| "astype_int (SObject xs) = objs_to_int64 xs"

subsection \<open>\<open>Series.max()\<close> and the arithmetic on \<open>int64\<close> columns\<close>

text \<open>The maximum of an empty column is NaN, here \<open>None\<close>.\<close>

fun series_max :: "int list \<Rightarrow> int option" where
  "series_max [] = None"
| "series_max (x # xs) = (case series_max xs of None \<Rightarrow> Some x | Some m \<Rightarrow> Some (max x m))"



text \<open>
  \<open>df['i'] * max_j + df['j']\<close> on two \<open>int64\<close> columns, with
  \<open>max_j = df['j'].max() + 1\<close>: every operation wraps. On a table without rows the
  maximum is NaN, and so is every cell of the result.
\<close>

definition fov_column :: "int list \<Rightarrow> int list \<Rightarrow> series" where
  "fov_column ivals jvals =
     (case series_max jvals of
        None \<Rightarrow> SFloat64 (map2 (\<lambda>i j. FNaN) ivals jvals)
      | Some m \<Rightarrow>
          let max_j = wrap_int64 (m + 1)
          in SInt64 (map2 (\<lambda>i j. wrap_int64 (wrap_int64 (i * max_j) + j)) ivals jvals))"

section \<open>Normalization of the coordinate table\<close>

text \<open>
  Lines 112 to 135 of \<open>process_coordinates_file\<close>, the \<open>normalize\<close> of the
  specification: from the table read to the table written. The columns \<open>df['i']\<close> and
  \<open>df['j']\<close> of line 125 are the ones lines 119 and 120 have just assigned.
\<close>

definition required_columns :: "string list" where
  "required_columns =
     [''region'', ''i'', ''j'', ''z_level'', ''x (mm)'', ''y (mm)'', ''z (um)'']"

fun check_required :: "string list \<Rightarrow> dataframe \<Rightarrow> exception option" where
  "check_required [] df = None"
| "check_required (col # cols) df =
     (if col \<notin> set (df_columns df)
      then Some (ValueError,
             ''Missing required column '' @ py_repr col @ '' in coordinates.csv'')
      else check_required cols df)"

definition normalize_table :: "dataframe \<Rightarrow> exception + dataframe" where
  "normalize_table df0 =
     (case check_required required_columns df0 of
        Some e \<Rightarrow> Inl e
      | None \<Rightarrow>
          bind (getitem df0 ''j'') (\<lambda>sj.
          bind (astype_int (fillna0 sj)) (\<lambda>jvals.
          let df1 = setitem df0 ''j'' (SInt64 jvals) in
          bind (getitem df1 ''i'') (\<lambda>si.
          bind (astype_int si) (\<lambda>ivals.
          let df2 = setitem df1 ''i'' (SInt64 ivals) in
          bind (getitem df2 ''z_level'') (\<lambda>sz.
          bind (astype_int sz) (\<lambda>zvals.
          let df3 = setitem df2 ''z_level'' (SInt64 zvals);
              df4 = setitem df3 ''fov'' (fov_column ivals jvals) in
          bind (getitem df4 ''region'') (\<lambda>region.
          bind (getitem df4 ''fov'') (\<lambda>fov.
          bind (getitem df4 ''z_level'') (\<lambda>z_level.
          bind (getitem df4 ''x (mm)'') (\<lambda>x_mm.
          bind (getitem df4 ''y (mm)'') (\<lambda>y_mm.
          bind (getitem df4 ''z (um)'') (\<lambda>z_um.
          Inr [(''region'', region), (''fov'', fov), (''z_level'', z_level),
               (''x (mm)'', x_mm), (''y (mm)'', y_mm), (''z (um)'', z_um)])))))))))))))"

section \<open>Paths, the file system and the interpreter\<close>

text \<open>\<open>os.path.join\<close> of POSIX, for two components.\<close>

definition os_path_join :: "string \<Rightarrow> string \<Rightarrow> string" where
  "os_path_join a b =
     (if b \<noteq> [] \<and> hd b = CHR ''/'' then b
      else if a = [] \<or> last a = CHR ''/'' then a @ b
      else a @ ''/'' @ b)"

text \<open>\<open>str\<close> of an integer, as an f-string prints it.\<close>

fun str_nat :: "nat \<Rightarrow> string" where
  "str_nat n =
     (if n < 10 then [''0123456789'' ! n]
      else str_nat (n div 10) @ [''0123456789'' ! (n mod 10)])"

declare str_nat.simps [simp del]

definition py_str_int :: "int \<Rightarrow> string" where
  "py_str_int n = (if n < 0 then ''-'' @ str_nat (nat (- n)) else str_nat (nat n))"

text \<open>
  A file holds a coordinate table or a parameter document, each as the library parses
  it. The file system is the set of directories and the files by path. Creating a
  directory and writing a file succeed: a home directory that cannot be written is
  outside the model.
\<close>

datatype jvalue = JStr string | JBool bool | JInt int | JNull

datatype file_content = CsvTable dataframe | JsonDoc "(string \<times> jvalue) list"

record filesystem =
  dirs :: "string set"
  files :: "string \<rightharpoonup> file_content"

definition os_makedirs :: "string \<Rightarrow> filesystem \<Rightarrow> filesystem" where
  "os_makedirs p fs = fs\<lparr>dirs := insert p (dirs fs)\<rparr>"

definition os_path_exists :: "filesystem \<Rightarrow> string \<Rightarrow> bool" where
  "os_path_exists fs p \<longleftrightarrow> p \<in> dirs fs \<or> files fs p \<noteq> None"

definition pd_read_csv :: "filesystem \<Rightarrow> string \<Rightarrow> exception + dataframe" where
  "pd_read_csv fs p =
     (case files fs p of
        None \<Rightarrow>
          if p \<in> dirs fs then Inl (IsADirectoryError, ''[Errno 21] Is a directory: '' @ py_repr p)
          else Inl (FileNotFoundError, ''[Errno 2] No such file or directory: '' @ py_repr p)
      | Some (CsvTable df) \<Rightarrow> Inr df
      | Some (JsonDoc d) \<Rightarrow> Inl (ParserError, ''Error tokenizing data''))"

definition to_csv :: "dataframe \<Rightarrow> string \<Rightarrow> filesystem \<Rightarrow> filesystem" where
  "to_csv df p fs = fs\<lparr>files := (files fs)(p \<mapsto> CsvTable df)\<rparr>"

text \<open>
  What the interpreter process supplies: the built-in \<open>hash\<close> on \<open>str\<close> (salted
  anew in every process unless \<open>PYTHONHASHSEED\<close> is fixed) and \<open>Path.home()\<close>.
\<close>

record interpreter =
  str_hash :: "string \<Rightarrow> int"
  home :: string

section \<open>\<open>process_coordinates_file\<close>\<close>

definition input_coords_file :: "string \<Rightarrow> string" where
  "input_coords_file input_folder =
     os_path_join (os_path_join input_folder ''0'') ''coordinates.csv''"

definition processed_dir :: "interpreter \<Rightarrow> string" where
  "processed_dir py = os_path_join (home py) ''.image_stitcher_processed''"

definition folder_hash :: "interpreter \<Rightarrow> string \<Rightarrow> int" where
  "folder_hash py input_folder = str_hash py input_folder AND 0xffffffff"

definition output_coords_file :: "interpreter \<Rightarrow> string \<Rightarrow> string" where
  "output_coords_file py input_folder =
     os_path_join (processed_dir py)
       (''coordinates_processed_'' @ py_str_int (folder_hash py input_folder) @ ''.csv'')"

definition process_coordinates_file ::
  "interpreter \<Rightarrow> string \<Rightarrow> filesystem \<Rightarrow> (exception + string) \<times> filesystem" where
  "process_coordinates_file py input_folder fs0 =
     (let fs = os_makedirs (processed_dir py) fs0 in
      if \<not> os_path_exists fs (input_coords_file input_folder) then
        (Inl (FileNotFoundError,
              ''Coordinates file not found: '' @ input_coords_file input_folder), fs)
      else
        case pd_read_csv fs (input_coords_file input_folder) of
          Inl e \<Rightarrow> (Inl e, fs)
        | Inr df \<Rightarrow>
            (case normalize_table df of
               Inl e \<Rightarrow> (Inl e, fs)
             | Inr new_df \<Rightarrow>
                 (Inr (output_coords_file py input_folder),
                  to_csv new_df (output_coords_file py input_folder) fs)))"

section \<open>The parameter model\<close>

text \<open>
  Modelled from the spec: the class \<open>StitchingParameters\<close> of the module
  \<open>parameters\<close>, which is not among the sources. These are the values a parameter
  dictionary or a parameter document holds, and the parameter object with the fields of
  section 3 of the specification.
\<close>

datatype pyvalue = VStr string | VBool bool | VInt int | VNone

type_synonym pydict = "(string \<times> pyvalue) list"

record stitching_parameters =
  sp_input_folder :: string
  sp_output_format :: string
  sp_apply_flatfield :: bool
  sp_use_registration :: bool
  sp_registration_channel :: "string option"
  sp_registration_z_level :: int
  sp_scan_pattern :: string
  sp_merge_timepoints :: bool
  sp_merge_hcs_regions :: bool
  sp_dynamic_registration :: bool

text \<open>
  Modelled from the spec: how \<open>StitchingParameters\<close>, which is not among the
  sources, reads one key of a dictionary at the type its field has in section 3. A key
  that is absent or holds a value of another type is ill-formed input, which the
  specification leaves open; here it is a \<open>KeyError\<close> or \<open>TypeError\<close> naming the
  key. The formats are the choices of \<open>--output-format\<close> in \<open>parse_args\<close>.
\<close>

definition get_str :: "pydict \<Rightarrow> string \<Rightarrow> exception + string" where
  "get_str d k =
     (case map_of d k of
        None \<Rightarrow> Inl (KeyError, py_repr k)
      | Some (VStr s) \<Rightarrow> Inr s
      | Some _ \<Rightarrow> Inl (TypeError, k))"

definition get_bool :: "pydict \<Rightarrow> string \<Rightarrow> exception + bool" where
  "get_bool d k =
     (case map_of d k of
        None \<Rightarrow> Inl (KeyError, py_repr k)
      | Some (VBool b) \<Rightarrow> Inr b
      | Some _ \<Rightarrow> Inl (TypeError, k))"

definition get_int :: "pydict \<Rightarrow> string \<Rightarrow> exception + int" where
  "get_int d k =
     (case map_of d k of
        None \<Rightarrow> Inl (KeyError, py_repr k)
      | Some (VInt n) \<Rightarrow> Inr n
      | Some _ \<Rightarrow> Inl (TypeError, k))"

definition get_opt_str :: "pydict \<Rightarrow> string \<Rightarrow> exception + string option" where
  "get_opt_str d k =
     (case map_of d k of
        None \<Rightarrow> Inl (KeyError, py_repr k)
      | Some (VStr s) \<Rightarrow> Inr (Some s)
      | Some VNone \<Rightarrow> Inr None
      | Some _ \<Rightarrow> Inl (TypeError, k))"

definition output_formats :: "string list" where
  "output_formats = [''.ome.zarr'', ''.ome.tiff'']"

text \<open>
  Modelled from the spec: \<open>StitchingParameters\<close> lives in the module \<open>parameters\<close>,
  which is not among the sources. Section 4.2: the one validation routine both
  constructors funnel into fails with a \<open>ConfigError\<close> citing the offending field on an
  \<open>output_format\<close> outside the enumeration, on an \<open>input_folder\<close> that does not exist,
  and on a negative \<open>registration_z_level\<close>; nothing else is validated.
\<close>

definition validate ::
  "filesystem \<Rightarrow> stitching_parameters \<Rightarrow> exception + stitching_parameters" where
  "validate fs p =
     (if sp_output_format p \<notin> set output_formats then Inl (ConfigError, ''output_format'')
      else if sp_input_folder p \<notin> dirs fs then Inl (ConfigError, ''input_folder'')
      else if sp_registration_z_level p < 0 then Inl (ConfigError, ''registration_z_level'')
      else Inr p)"

text \<open>
  Modelled from the spec: \<open>StitchingParameters.from_dict\<close> (\<open>fromFields\<close> of section
  4.2), which is not among the sources: the ten fields are read from the dictionary
  under the keys of section 6 and validated.
\<close>

definition from_dict :: "filesystem \<Rightarrow> pydict \<Rightarrow> exception + stitching_parameters" where
  "from_dict fs d =
     bind (get_str d ''input_folder'') (\<lambda>input_folder.
     bind (get_str d ''output_format'') (\<lambda>output_format.
     bind (get_bool d ''apply_flatfield'') (\<lambda>apply_flatfield.
     bind (get_bool d ''use_registration'') (\<lambda>use_registration.
     bind (get_opt_str d ''registration_channel'') (\<lambda>registration_channel.
     bind (get_int d ''registration_z_level'') (\<lambda>registration_z_level.
     bind (get_str d ''scan_pattern'') (\<lambda>scan_pattern.
     bind (get_bool d ''merge_timepoints'') (\<lambda>merge_timepoints.
     bind (get_bool d ''merge_hcs_regions'') (\<lambda>merge_hcs_regions.
     bind (get_bool d ''dynamic_registration'') (\<lambda>dynamic_registration.
     validate fs
       \<lparr>sp_input_folder = input_folder,
        sp_output_format = output_format,
        sp_apply_flatfield = apply_flatfield,
        sp_use_registration = use_registration,
        sp_registration_channel = registration_channel,
        sp_registration_z_level = registration_z_level,
        sp_scan_pattern = scan_pattern,
        sp_merge_timepoints = merge_timepoints,
        sp_merge_hcs_regions = merge_hcs_regions,
        sp_dynamic_registration = dynamic_registration\<rparr>))))))))))"

text \<open>
  Modelled from the spec: the parameter document of section 6, a structured document
  with the keys of the discrete fields. \<open>serialize\<close> writes a dictionary as a
  document, \<open>deserialize\<close> reads a document back.
\<close>

fun to_json :: "pyvalue \<Rightarrow> jvalue" where
  "to_json (VStr s) = JStr s"
| "to_json (VBool b) = JBool b"
| "to_json (VInt n) = JInt n"
| "to_json VNone = JNull"

fun of_json :: "jvalue \<Rightarrow> pyvalue" where
  "of_json (JStr s) = VStr s"
| "of_json (JBool b) = VBool b"
| "of_json (JInt n) = VInt n"
| "of_json JNull = VNone"

definition serialize :: "pydict \<Rightarrow> (string \<times> jvalue) list" where
  "serialize d = map (\<lambda>(k, v). (k, to_json v)) d"

definition deserialize :: "(string \<times> jvalue) list \<Rightarrow> pydict" where
  "deserialize doc = map (\<lambda>(k, v). (k, of_json v)) doc"

text \<open>
  Modelled from the spec: \<open>StitchingParameters.from_json\<close> (\<open>fromDocument\<close> of
  section 4.2), which is not among the sources: the document at the path is read and
  its fields go through the same routine as those of \<open>from_dict\<close>.
\<close>

definition from_json :: "filesystem \<Rightarrow> string \<Rightarrow> exception + stitching_parameters" where
  "from_json fs path =
     (case files fs path of
        None \<Rightarrow> Inl (FileNotFoundError, ''[Errno 2] No such file or directory: '' @ py_repr path)
      | Some (CsvTable df) \<Rightarrow> Inl (ValueError, ''Expecting value'')
      | Some (JsonDoc doc) \<Rightarrow> from_dict fs (deserialize doc))"

section \<open>\<open>create_params\<close>\<close>

text \<open>The namespace \<open>parse_args\<close> returns.\<close>

record cli_args =
  arg_input_folder :: string
  arg_output_format :: string
  arg_apply_flatfield :: bool
  arg_use_registration :: bool
  arg_registration_channel :: "string option"
  arg_registration_z_level :: int
  arg_dynamic_registration :: bool
  arg_scan_pattern :: string
  arg_merge_timepoints :: bool
  arg_merge_hcs_regions :: bool
  arg_params_json :: "string option"

definition params_dict :: "cli_args \<Rightarrow> pydict" where
  "params_dict a =
     [(''input_folder'', VStr (arg_input_folder a)),
      (''output_format'', VStr (arg_output_format a)),
      (''apply_flatfield'', VBool (arg_apply_flatfield a)),
      (''use_registration'', VBool (arg_use_registration a)),
      (''registration_channel'',
         (case arg_registration_channel a of None \<Rightarrow> VNone | Some c \<Rightarrow> VStr c)),
      (''registration_z_level'', VInt (arg_registration_z_level a)),
      (''scan_pattern'', VStr (arg_scan_pattern a)),
      (''merge_timepoints'', VBool (arg_merge_timepoints a)),
      (''merge_hcs_regions'', VBool (arg_merge_hcs_regions a)),
      (''dynamic_registration'', VBool (arg_dynamic_registration a))]"

text \<open>\<open>if args.params_json\<close> is false for \<open>None\<close> and for the empty string.\<close>

definition create_params :: "filesystem \<Rightarrow> cli_args \<Rightarrow> exception + stitching_parameters" where
  "create_params fs a =
     (case arg_params_json a of
        None \<Rightarrow> from_dict fs (params_dict a)
      | Some path \<Rightarrow>
          if path = [] then from_dict fs (params_dict a) else from_json fs path)"

section \<open>\<open>main\<close>\<close>

text \<open>
  The stitching engine \<open>CoordinateStitcher\<close> is an external collaborator: its
  constructor and its \<open>run\<close> are parameters. Each may raise and may change the file
  system. \<open>main\<close> ends by returning, by \<open>sys.exit\<close> with a status, or with an
  exception that its handler does not catch; what it prints to the standard error
  stream is part of the result. The progress lines on standard output are not modelled.
\<close>

record 'st engine =
  stitcher_init :: "stitching_parameters \<Rightarrow> filesystem \<Rightarrow> (exception + 'st) \<times> filesystem"
  stitcher_run :: "'st \<Rightarrow> filesystem \<Rightarrow> (exception + unit) \<times> filesystem"

datatype outcome = Returned | SysExit int | Raised exception

record result =
  outcome :: outcome
  final_fs :: filesystem
  stderr :: "string list"

text \<open>The handler \<open>except Exception as e\<close>: print and leave with status 1.\<close>

definition handler :: "exception \<Rightarrow> filesystem \<Rightarrow> result" where
  "handler e fs =
     (if is_Exception (fst e)
      then \<lparr>outcome = SysExit 1, final_fs = fs, stderr = [''Error: '' @ snd e]\<rparr>
      else \<lparr>outcome = Raised e, final_fs = fs, stderr = []\<rparr>)"

definition main :: "interpreter \<Rightarrow> 'st engine \<Rightarrow> cli_args \<Rightarrow> filesystem \<Rightarrow> result" where
  "main py eng a fs0 =
     (case process_coordinates_file py (arg_input_folder a) fs0 of
        (Inl e, fs1) \<Rightarrow> handler e fs1
      | (Inr _, fs1) \<Rightarrow>
          (case create_params fs1 a of
             Inl e \<Rightarrow> handler e fs1
           | Inr params \<Rightarrow>
               (case stitcher_init eng params fs1 of
                  (Inl e, fs2) \<Rightarrow> handler e fs2
                | (Inr stitcher, fs2) \<Rightarrow>
                    (case stitcher_run eng stitcher fs2 of
                       (Inl e, fs3) \<Rightarrow> handler e fs3
                     | (Inr _, fs3) \<Rightarrow>
                         \<lparr>outcome = Returned, final_fs = fs3, stderr = []\<rparr>))))"

section \<open>Example inputs\<close>

text \<open>The table of the example in section 8 of the specification, and what
  normalization makes of it.\<close>

definition spec_example :: dataframe where
  "spec_example =
     [(''region'', SObject [PyStr ''A1'', PyStr ''A1'', PyStr ''A1'']),
      (''i'', SInt64 [0, 0, 1]),
      (''j'', SInt64 [0, 1, 0]),
      (''z_level'', SInt64 [0, 0, 0]),
      (''x (mm)'', SFloat64 [FVal 1 0, FVal 2 0, FVal 1 0]),
      (''y (mm)'', SFloat64 [FVal 1 0, FVal 1 0, FVal 2 0]),
      (''z (um)'', SInt64 [0, 0, 0])]"

definition spec_example_canonical :: dataframe where
  "spec_example_canonical =
     [(''region'', SObject [PyStr ''A1'', PyStr ''A1'', PyStr ''A1'']),
      (''fov'', SInt64 [0, 1, 2]),
      (''z_level'', SInt64 [0, 0, 0]),
      (''x (mm)'', SFloat64 [FVal 1 0, FVal 2 0, FVal 1 0]),
      (''y (mm)'', SFloat64 [FVal 1 0, FVal 1 0, FVal 2 0]),
      (''z (um)'', SInt64 [0, 0, 0])]"

text \<open>The same table without its column \<open>j\<close>.\<close>

definition no_j_example :: dataframe where
  "no_j_example =
     [(''region'', SObject [PyStr ''A1'', PyStr ''A1'', PyStr ''A1'']),
      (''i'', SInt64 [0, 0, 1]),
      (''z_level'', SInt64 [0, 0, 0]),
      (''x (mm)'', SFloat64 [FVal 1 0, FVal 2 0, FVal 1 0]),
      (''y (mm)'', SFloat64 [FVal 1 0, FVal 1 0, FVal 2 0]),
      (''z (um)'', SInt64 [0, 0, 0])]"

text \<open>An interpreter process, an empty file system, and file systems that hold a
  scan folder with one of the tables above.\<close>

definition example_py :: interpreter where
  "example_py = \<lparr>str_hash = (\<lambda>s. 5 - int (length s)), home = ''/home/user''\<rparr>"

definition empty_fs :: filesystem where
  "empty_fs = \<lparr>dirs = {}, files = Map.empty\<rparr>"

definition scan_fs :: "dataframe \<Rightarrow> filesystem" where
  "scan_fs df =
     \<lparr>dirs = {''/data/scan'', ''/data/scan/0''},
      files = [''/data/scan/0/coordinates.csv'' \<mapsto> CsvTable df]\<rparr>"

text \<open>A second interpreter process, with another hash and another home directory.\<close>

definition other_py :: interpreter where
  "other_py = \<lparr>str_hash = (\<lambda>s. 77), home = ''/root''\<rparr>"

text \<open>What a run leaves in the cache file, or the exception it raised.\<close>

definition written_table ::
  "(exception + string) \<times> filesystem \<Rightarrow> exception + file_content option" where
  "written_table r = (case r of (Inl e, fs) \<Rightarrow> Inl e | (Inr p, fs) \<Rightarrow> Inr (files fs p))"

text \<open>Arguments as \<open>parse_args\<close> returns them for \<open>-i /data/scan -r\<close>, the
  parameter object they stand for, and a file system that holds them as a document.\<close>

definition example_args :: cli_args where
  "example_args =
     \<lparr>arg_input_folder = ''/data/scan'',
      arg_output_format = ''.ome.zarr'',
      arg_apply_flatfield = False,
      arg_use_registration = True,
      arg_registration_channel = None,
      arg_registration_z_level = 0,
      arg_dynamic_registration = False,
      arg_scan_pattern = ''Unidirectional'',
      arg_merge_timepoints = False,
      arg_merge_hcs_regions = False,
      arg_params_json = None\<rparr>"

definition example_params :: stitching_parameters where
  "example_params =
     \<lparr>sp_input_folder = ''/data/scan'',
      sp_output_format = ''.ome.zarr'',
      sp_apply_flatfield = False,
      sp_use_registration = True,
      sp_registration_channel = None,
      sp_registration_z_level = 0,
      sp_scan_pattern = ''Unidirectional'',
      sp_merge_timepoints = False,
      sp_merge_hcs_regions = False,
      sp_dynamic_registration = False\<rparr>"

definition params_fs :: filesystem where
  "params_fs =
     \<lparr>dirs = {''/data/scan''},
      files = [''/data/params.json'' \<mapsto> JsonDoc (serialize (params_dict example_args))]\<rparr>"

text \<open>An engine whose \<open>run\<close> raises the given exception, and the file system it is
  started on in the examples: the scan folder after normalization.\<close>

definition failing_engine :: "exception \<Rightarrow> unit engine" where
  "failing_engine e =
     \<lparr>stitcher_init = (\<lambda>params fs. (Inr (), fs)),
      stitcher_run = (\<lambda>stitcher fs. (Inl e, fs))\<rparr>"

definition cached_fs :: filesystem where
  "cached_fs =
     to_csv spec_example_canonical (output_coords_file example_py ''/data/scan'')
       (os_makedirs (processed_dir example_py) (scan_fs spec_example))"




text \<open>One field of view taken at two z levels, its canonical table, and a full two
  by two grid whose last cell is taken at two z levels.\<close>

definition two_levels_example :: dataframe where
  "two_levels_example =
     [(''region'', SObject [PyStr ''A1'', PyStr ''A1'']),
      (''i'', SInt64 [0, 0]),
      (''j'', SInt64 [0, 0]),
      (''z_level'', SInt64 [0, 1]),
      (''x (mm)'', SFloat64 [FVal 1 0, FVal 1 0]),
      (''y (mm)'', SFloat64 [FVal 1 0, FVal 1 0]),
      (''z (um)'', SInt64 [0, 5])]"

definition two_levels_canonical :: dataframe where
  "two_levels_canonical =
     [(''region'', SObject [PyStr ''A1'', PyStr ''A1'']),
      (''fov'', SInt64 [0, 0]),
      (''z_level'', SInt64 [0, 1]),
      (''x (mm)'', SFloat64 [FVal 1 0, FVal 1 0]),
      (''y (mm)'', SFloat64 [FVal 1 0, FVal 1 0]),
      (''z (um)'', SInt64 [0, 5])]"

definition grid_example :: dataframe where
  "grid_example =
     [(''region'', SObject [PyStr ''A1'', PyStr ''A1'', PyStr ''A1'', PyStr ''A1'', PyStr ''A1'']),
      (''i'', SInt64 [0, 0, 1, 1, 1]),
      (''j'', SInt64 [0, 1, 0, 1, 1]),
      (''z_level'', SInt64 [0, 0, 0, 0, 1]),
      (''x (mm)'', SFloat64 [FVal 1 0, FVal 2 0, FVal 1 0, FVal 2 0, FVal 2 0]),
      (''y (mm)'', SFloat64 [FVal 1 0, FVal 1 0, FVal 2 0, FVal 2 0, FVal 2 0]),
      (''z (um)'', SInt64 [0, 0, 0, 0, 5])]"

text \<open>The first interpreter started again: the same home directory, another salt of
  the built-in hash.\<close>

definition restarted_py :: interpreter where
  "restarted_py = example_py\<lparr>str_hash := (\<lambda>s. 77)\<rparr>"

section \<open>Lemmas on the table library\<close>

lemma getitem_setitem:
  "getitem (setitem df k v) k' = (if k' = k then Inr v else getitem df k')"
  by (simp add: getitem_def setitem_def update_conv')

lemma getitem_Some: "map_of df c = Some s \<Longrightarrow> getitem df c = Inr s"
  by (simp add: getitem_def)

lemma check_required_None:
  "check_required cols df = None \<longleftrightarrow> set cols \<subseteq> set (df_columns df)"
  by (induction cols) auto

lemma check_required_find:
  "check_required cols df =
     map_option
       (\<lambda>col. (ValueError, ''Missing required column '' @ py_repr col @ '' in coordinates.csv''))
       (find (\<lambda>col. col \<notin> set (df_columns df)) cols)"
  by (induction cols) auto

lemma in_columns_map_of: "c \<in> set (df_columns df) \<Longrightarrow> \<exists>s. map_of df c = Some s"
  by (metis df_columns_def map_of_eq_None_iff not_Some_eq set_map)

section \<open>Lemmas on paths and on the file system\<close>

lemma last_os_path_join: "b \<noteq> [] \<Longrightarrow> last (os_path_join a b) = last b"
  by (simp add: os_path_join_def)

text \<open>The directory created first is never the path of the coordinates file: the two
  end in different characters.\<close>

lemma input_neq_processed_dir: "input_coords_file d \<noteq> processed_dir py"
proof
  assume "input_coords_file d = processed_dir py"
  then have "last (input_coords_file d) = last (processed_dir py)" by simp
  then show False
    by (simp add: input_coords_file_def processed_dir_def last_os_path_join)
qed

lemma exists_after_makedirs:
  "os_path_exists (os_makedirs (processed_dir py) fs) (input_coords_file d)
     = os_path_exists fs (input_coords_file d)"
  using input_neq_processed_dir [of d py]
  by (auto simp: os_path_exists_def os_makedirs_def)

lemma process_missing_file:
  assumes "\<not> os_path_exists fs (input_coords_file d)"
  shows "process_coordinates_file py d fs =
           (Inl (FileNotFoundError, ''Coordinates file not found: '' @ input_coords_file d),
            os_makedirs (processed_dir py) fs)"
  using assms by (simp add: process_coordinates_file_def exists_after_makedirs Let_def)

lemma process_table:
  assumes "files fs (input_coords_file d) = Some (CsvTable df)"
  shows "process_coordinates_file py d fs =
           (case normalize_table df of
              Inl e \<Rightarrow> (Inl e, os_makedirs (processed_dir py) fs)
            | Inr new_df \<Rightarrow>
                (Inr (output_coords_file py d),
                 to_csv new_df (output_coords_file py d) (os_makedirs (processed_dir py) fs)))"
proof -
  have ex: "os_path_exists (os_makedirs (processed_dir py) fs) (input_coords_file d)"
    using assms by (simp add: os_path_exists_def os_makedirs_def)
  have rd: "pd_read_csv (os_makedirs (processed_dir py) fs) (input_coords_file d) = Inr df"
    using assms by (simp add: pd_read_csv_def os_makedirs_def)
  show ?thesis
    using ex rd by (simp add: process_coordinates_file_def Let_def)
qed

lemma process_error_fs:
  "process_coordinates_file py d fs = (Inl e, fs') \<Longrightarrow>
     fs' = os_makedirs (processed_dir py) fs"
  by (auto simp: process_coordinates_file_def Let_def split: if_splits sum.splits)

lemma empty_fs_no_input: "\<not> os_path_exists empty_fs (input_coords_file ''/data/scan'')"
  by (simp add: os_path_exists_def empty_fs_def)

lemma scan_fs_input:
  "files (scan_fs df) (input_coords_file ''/data/scan'') = Some (CsvTable df)"
  by (simp add: scan_fs_def input_coords_file_def os_path_join_def)

lemma input_coords_file_scan:
  "input_coords_file ''/data/scan'' = ''/data/scan/0/coordinates.csv''"
  by (simp add: input_coords_file_def os_path_join_def)

lemma processed_dir_example: "processed_dir example_py = ''/home/user/.image_stitcher_processed''"
  by (simp add: processed_dir_def example_py_def os_path_join_def)

section \<open>Errors of normalization\<close>

text \<open>
  Claim C5. When the raw coordinates file \<open><input_folder>/0/coordinates.csv\<close> does
  not exist, \<open>process_coordinates_file\<close> raises \<open>FileNotFoundError\<close>, the message ends
  in the path that was expected, and the files of the file system are what they were:
  no cache file is written.
\<close>

theorem missing_coordinates_file:
  assumes "\<not> os_path_exists fs (input_coords_file input_folder)"
  shows "process_coordinates_file py input_folder fs =
           (Inl (FileNotFoundError,
                 ''Coordinates file not found: '' @ input_coords_file input_folder),
            os_makedirs (processed_dir py) fs)
         \<and> files (snd (process_coordinates_file py input_folder fs)) = files fs"
  using process_missing_file [OF assms, of py] by (simp add: os_makedirs_def)

theorem missing_coordinates_file_witness:
  "\<not> os_path_exists empty_fs (input_coords_file ''/data/scan'')
   \<and> fst (process_coordinates_file example_py ''/data/scan'' empty_fs) =
       Inl (FileNotFoundError,
            ''Coordinates file not found: /data/scan/0/coordinates.csv'')
   \<and> files (snd (process_coordinates_file example_py ''/data/scan'' empty_fs)) = Map.empty"
  using empty_fs_no_input
    missing_coordinates_file [OF empty_fs_no_input, of example_py]
  by (simp add: input_coords_file_scan empty_fs_def os_makedirs_def)

text \<open>
  Claim C6. When the table read lacks one of the required columns,
  \<open>process_coordinates_file\<close> raises \<open>ValueError\<close>; the message names the first
  required column, in the order of the list, that the table lacks; the files of the
  file system are what they were, so nothing partial is written.
\<close>

theorem missing_required_column:
  assumes "files fs (input_coords_file input_folder) = Some (CsvTable df)"
    and "\<not> set required_columns \<subseteq> set (df_columns df)"
  shows "\<exists>col. find (\<lambda>c. c \<notin> set (df_columns df)) required_columns = Some col
           \<and> process_coordinates_file py input_folder fs =
               (Inl (ValueError,
                     ''Missing required column '' @ py_repr col @ '' in coordinates.csv''),
                os_makedirs (processed_dir py) fs)
           \<and> files (snd (process_coordinates_file py input_folder fs)) = files fs"
proof -
  from assms(2) have "check_required required_columns df \<noteq> None"
    by (simp only: check_required_None not_False_eq_True)
  then have "find (\<lambda>c. c \<notin> set (df_columns df)) required_columns \<noteq> None"
    by (simp only: check_required_find map_option_is_None not_False_eq_True)
  then obtain col
    where c: "find (\<lambda>c. c \<notin> set (df_columns df)) required_columns = Some col"
    by blast
  then have n: "normalize_table df =
      Inl (ValueError, ''Missing required column '' @ py_repr col @ '' in coordinates.csv'')"
    by (simp add: normalize_table_def check_required_find)
  show ?thesis
    using c n process_table [OF assms(1), of py] by (simp add: os_makedirs_def)
qed

lemma no_j_example_columns:
  "find (\<lambda>c. c \<notin> set (df_columns no_j_example)) required_columns = Some ''j''"
  by (simp add: no_j_example_def required_columns_def df_columns_def)

theorem missing_required_column_witness:
  "files (scan_fs no_j_example) (input_coords_file ''/data/scan'') = Some (CsvTable no_j_example)
   \<and> \<not> set required_columns \<subseteq> set (df_columns no_j_example)
   \<and> fst (process_coordinates_file example_py ''/data/scan'' (scan_fs no_j_example)) =
       Inl (ValueError, ''Missing required column '' @ py_repr ''j'' @ '' in coordinates.csv'')
   \<and> files (snd (process_coordinates_file example_py ''/data/scan'' (scan_fs no_j_example))) =
       files (scan_fs no_j_example)"
proof -
  have h: "\<not> set required_columns \<subseteq> set (df_columns no_j_example)"
    by (simp add: no_j_example_def required_columns_def df_columns_def)
  show ?thesis
    using h scan_fs_input [of no_j_example] no_j_example_columns
      missing_required_column [OF scan_fs_input h, of example_py]
    by auto
qed

text \<open>
  Claim C10. The directory \<open>~/.image_stitcher_processed\<close> is created before the
  coordinates file is looked for. So whenever \<open>process_coordinates_file\<close> raises, be it
  \<open>FileNotFoundError\<close>, the \<open>ValueError\<close> of a missing column or any other exception,
  the directory is there afterwards, while the files are what they were.
\<close>

theorem directory_created_on_error:
  assumes "process_coordinates_file py input_folder fs = (Inl e, fs')"
  shows "processed_dir py \<in> dirs fs' \<and> files fs' = files fs"
  using process_error_fs [OF assms] by (simp add: os_makedirs_def)

theorem directory_created_on_error_witness:
  "process_coordinates_file example_py ''/data/scan'' empty_fs =
     (Inl (FileNotFoundError, ''Coordinates file not found: /data/scan/0/coordinates.csv''),
      os_makedirs (processed_dir example_py) empty_fs)
   \<and> dirs empty_fs = {}
   \<and> ''/home/user/.image_stitcher_processed''
        \<in> dirs (os_makedirs (processed_dir example_py) empty_fs)
   \<and> files (os_makedirs (processed_dir example_py) empty_fs) = files empty_fs"
proof -
  have h: "process_coordinates_file example_py ''/data/scan'' empty_fs =
     (Inl (FileNotFoundError, ''Coordinates file not found: /data/scan/0/coordinates.csv''),
      os_makedirs (processed_dir example_py) empty_fs)"
    using process_missing_file [OF empty_fs_no_input, of example_py]
    by (simp add: input_coords_file_scan)
  show ?thesis
    using h directory_created_on_error [OF h]
    by (simp add: processed_dir_example empty_fs_def)
qed

section \<open>Determinism of normalization\<close>

lemma normalize_spec_example: "normalize_table spec_example = Inr spec_example_canonical"
  unfolding spec_example_def spec_example_canonical_def normalize_table_def
  by (simp add: required_columns_def df_columns_def getitem_def setitem_def bind_def
        fov_column_def wrap_int64_def)

lemma written_table_process:
  assumes "files fs (input_coords_file d) = Some (CsvTable df)"
  shows "written_table (process_coordinates_file py d fs) =
           (case normalize_table df of Inl e \<Rightarrow> Inl e | Inr t \<Rightarrow> Inr (Some (CsvTable t)))"
  by (simp add: process_table [OF assms] written_table_def to_csv_def split: sum.splits)

text \<open>
  Claim C3. Two runs that read the same raw table, whatever interpreter process, home
  directory, input folder and file system each of them has, end in the same way: with
  the same exception, or with the same canonical table in the cache file. That table is
  \<open>normalize_table\<close> of the raw table and depends on nothing else.
\<close>

theorem normalization_deterministic:
  assumes "files fs1 (input_coords_file d1) = Some (CsvTable df)"
    and "files fs2 (input_coords_file d2) = Some (CsvTable df)"
  shows "written_table (process_coordinates_file py1 d1 fs1) =
           written_table (process_coordinates_file py2 d2 fs2)
       \<and> written_table (process_coordinates_file py1 d1 fs1) =
           (case normalize_table df of Inl e \<Rightarrow> Inl e | Inr t \<Rightarrow> Inr (Some (CsvTable t)))"
  by (simp add: written_table_process [OF assms(1)] written_table_process [OF assms(2)])

theorem normalization_deterministic_witness:
  "files (scan_fs spec_example) (input_coords_file ''/data/scan'') = Some (CsvTable spec_example)
   \<and> written_table (process_coordinates_file example_py ''/data/scan'' (scan_fs spec_example)) =
       written_table (process_coordinates_file other_py ''/data/scan'' (scan_fs spec_example))
   \<and> written_table (process_coordinates_file example_py ''/data/scan'' (scan_fs spec_example)) =
       Inr (Some (CsvTable spec_example_canonical))"
  using scan_fs_input [of spec_example]
    normalization_deterministic [OF scan_fs_input [of spec_example] scan_fs_input,
      where ?py1.0 = example_py and ?py2.0 = other_py]
  by (auto simp: normalize_spec_example)

section \<open>The two constructors of the parameter model\<close>

lemma of_json_to_json: "of_json (to_json v) = v"
  by (cases v) simp_all

lemma deserialize_serialize: "deserialize (serialize d) = d"
  by (induction d) (auto simp: deserialize_def serialize_def of_json_to_json)

lemma from_dict_example: "from_dict params_fs (params_dict example_args) = Inr example_params"
  by (simp add: from_dict_def params_dict_def example_args_def example_params_def bind_def
        get_str_def get_bool_def get_int_def get_opt_str_def validate_def output_formats_def
        params_fs_def)

text \<open>
  Claim C8. For every dictionary \<open>d\<close> of field values, \<open>from_json\<close> on a file that
  holds the document \<open>serialize d\<close> gives what \<open>from_dict\<close> gives on \<open>d\<close>: the same
  parameter object, field for field, when \<open>d\<close> is valid, and the same error otherwise.
\<close>

theorem from_dict_from_json_equal:
  assumes "files fs path = Some (JsonDoc (serialize d))"
  shows "from_json fs path = from_dict fs d"
  using assms by (simp add: from_json_def deserialize_serialize)

theorem from_dict_from_json_equal_witness:
  "files params_fs ''/data/params.json'' = Some (JsonDoc (serialize (params_dict example_args)))
   \<and> from_json params_fs ''/data/params.json'' = Inr example_params
   \<and> from_dict params_fs (params_dict example_args) = Inr example_params"
proof -
  have h: "files params_fs ''/data/params.json'' =
             Some (JsonDoc (serialize (params_dict example_args)))"
    by (simp add: params_fs_def)
  show ?thesis
    using h from_dict_from_json_equal [OF h] from_dict_example by simp
qed

section \<open>Failures of the stitching engine\<close>

lemma main_run_raises:
  assumes "process_coordinates_file py (arg_input_folder a) fs0 = (Inr out, fs1)"
    and "create_params fs1 a = Inr params"
    and "stitcher_init eng params fs1 = (Inr st, fs2)"
    and "stitcher_run eng st fs2 = (Inl e, fs3)"
  shows "main py eng a fs0 = handler e fs3"
  using assms by (simp add: main_def)

lemma process_scan_example:
  "process_coordinates_file example_py ''/data/scan'' (scan_fs spec_example) =
     (Inr (output_coords_file example_py ''/data/scan''), cached_fs)"
  by (simp add: process_table [OF scan_fs_input] normalize_spec_example cached_fs_def)

lemma create_params_example: "create_params cached_fs example_args = Inr example_params"
  by (simp add: create_params_def from_dict_def params_dict_def example_args_def
        example_params_def bind_def get_str_def get_bool_def get_int_def get_opt_str_def
        validate_def output_formats_def to_csv_def os_makedirs_def scan_fs_def cached_fs_def)

lemma arg_input_folder_example: "arg_input_folder example_args = ''/data/scan''"
  by (simp add: example_args_def)

lemma main_failing_engine:
  "main example_py (failing_engine e) example_args (scan_fs spec_example) = handler e cached_fs"
  by (rule main_run_raises [where params = example_params and st = "()"])
    (simp_all add: arg_input_folder_example process_scan_example create_params_example
       failing_engine_def)

text \<open>
  Claim C9, as the specification states it, fails: an engine whose \<open>run\<close> raises a
  \<open>RuntimeError\<close> does not reach the caller as a \<open>RuntimeError\<close>. \<open>main\<close> leaves with
  exit status 1, and the result cannot be told from that of an engine raising a
  \<open>ValueError\<close> with the same message.
\<close>

theorem engine_failure_kind_counterexample:
  "outcome (main example_py (failing_engine (OtherException ''RuntimeError'', ''boom''))
              example_args (scan_fs spec_example)) = SysExit 1
   \<and> outcome (main example_py (failing_engine (OtherException ''RuntimeError'', ''boom''))
              example_args (scan_fs spec_example))
       \<noteq> Raised (OtherException ''RuntimeError'', ''boom'')
   \<and> main example_py (failing_engine (OtherException ''RuntimeError'', ''boom''))
        example_args (scan_fs spec_example)
       = main example_py (failing_engine (ValueError, ''boom''))
        example_args (scan_fs spec_example)"
  by (simp add: main_failing_engine handler_def)

text \<open>
  Claim C9, amended. When the engine's \<open>run\<close> raises, \<open>main\<close> does not call it again:
  the file system at the end is the one that single call left. The failure is fatal. An
  exception that derives from \<open>Exception\<close> is caught: \<open>Error:\<close> and its message go to
  the standard error stream and the process leaves with status 1, so the caller learns
  the message, not the class. Only an exception outside \<open>Exception\<close> reaches the caller
  as it was raised.
\<close>

theorem engine_failure_exits:
  assumes "process_coordinates_file py (arg_input_folder a) fs0 = (Inr out, fs1)"
    and "create_params fs1 a = Inr params"
    and "stitcher_init eng params fs1 = (Inr st, fs2)"
    and "stitcher_run eng st fs2 = (Inl e, fs3)"
  shows "main py eng a fs0 =
           (if is_Exception (fst e)
            then \<lparr>outcome = SysExit 1, final_fs = fs3, stderr = [''Error: '' @ snd e]\<rparr>
            else \<lparr>outcome = Raised e, final_fs = fs3, stderr = []\<rparr>)"
  using main_run_raises [OF assms] by (simp add: handler_def)

theorem engine_failure_exits_witness:
  "process_coordinates_file example_py (arg_input_folder example_args) (scan_fs spec_example) =
     (Inr (output_coords_file example_py ''/data/scan''), cached_fs)
   \<and> create_params cached_fs example_args = Inr example_params
   \<and> stitcher_init (failing_engine (ValueError, ''boom'')) example_params cached_fs =
       (Inr (), cached_fs)
   \<and> stitcher_run (failing_engine (ValueError, ''boom'')) () cached_fs =
       (Inl (ValueError, ''boom''), cached_fs)
   \<and> main example_py (failing_engine (ValueError, ''boom'')) example_args (scan_fs spec_example) =
       \<lparr>outcome = SysExit 1, final_fs = cached_fs, stderr = [''Error: boom'']\<rparr>"
proof -
  have p: "process_coordinates_file example_py (arg_input_folder example_args)
             (scan_fs spec_example) =
           (Inr (output_coords_file example_py ''/data/scan''), cached_fs)"
    by (simp add: arg_input_folder_example process_scan_example)
  have i: "stitcher_init (failing_engine (ValueError, ''boom'')) example_params cached_fs =
             (Inr (), cached_fs)"
    by (simp add: failing_engine_def)
  have r: "stitcher_run (failing_engine (ValueError, ''boom'')) () cached_fs =
             (Inl (ValueError, ''boom''), cached_fs)"
    by (simp add: failing_engine_def)
  show ?thesis
    using p i r create_params_example engine_failure_exits [OF p create_params_example i r]
    by simp
qed

section \<open>The field-of-view index\<close>

lemma wrap_int64_id: "in_int64 x \<Longrightarrow> wrap_int64 x = x"
  by (simp add: in_int64_def wrap_int64_def)

lemma in_int64_wrap: "in_int64 (wrap_int64 x)"
proof -
  have "0 \<le> (x + 2 ^ 63) mod 2 ^ 64" "(x + 2 ^ 63) mod 2 ^ 64 < (2 ^ 64 :: int)"
    by simp_all
  then show ?thesis by (simp add: in_int64_def wrap_int64_def)
qed

lemma wrap_int64_cong: "x mod 2 ^ 64 = y mod 2 ^ 64 \<Longrightarrow> wrap_int64 x = wrap_int64 y"
proof -
  assume a: "x mod 2 ^ 64 = y mod 2 ^ 64"
  have "(x + 2 ^ 63) mod 2 ^ 64 = (x mod 2 ^ 64 + 2 ^ 63) mod 2 ^ 64"
    by (simp add: mod_add_left_eq)
  also have "\<dots> = (y mod 2 ^ 64 + 2 ^ 63) mod 2 ^ 64" by (simp only: a)
  also have "\<dots> = (y + 2 ^ 63) mod 2 ^ 64" by (simp add: mod_add_left_eq)
  finally show ?thesis by (simp add: wrap_int64_def)
qed

lemma wrap_int64_mod: "wrap_int64 x mod 2 ^ 64 = x mod 2 ^ 64"
proof -
  have "wrap_int64 x mod 2 ^ 64 = ((x + 2 ^ 63) mod 2 ^ 64 - 2 ^ 63) mod 2 ^ 64"
    by (simp add: wrap_int64_def)
  also have "\<dots> = (x + 2 ^ 63 - 2 ^ 63) mod 2 ^ 64"
    by (rule mod_diff_left_eq)
  finally show ?thesis by simp
qed

lemma wrap_int64_add_left: "wrap_int64 (wrap_int64 a + b) = wrap_int64 (a + b)"
  by (rule wrap_int64_cong) (metis mod_add_left_eq wrap_int64_mod)

lemma wrap_int64_mult_right: "wrap_int64 (a * wrap_int64 b) = wrap_int64 (a * b)"
  by (rule wrap_int64_cong) (metis mod_mult_right_eq wrap_int64_mod)

lemma fov_cell: "wrap_int64 (wrap_int64 (i * wrap_int64 (m + 1)) + j) = wrap_int64 (i * (m + 1) + j)"
  by (simp add: wrap_int64_add_left wrap_int64_mult_right)

lemma series_max_Max: "xs \<noteq> [] \<Longrightarrow> series_max xs = Some (Max (set xs))"
proof (induction xs)
  case Nil
  then show ?case by simp
next
  case (Cons x xs)
  show ?case
  proof (cases "xs = []")
    case True
    then show ?thesis by simp
  next
    case False
    with Cons show ?thesis by simp
  qed
qed

lemma objs_to_int64_Inr:
  "objs_to_int64 xs = Inr ns \<Longrightarrow>
     length ns = length xs \<and> (\<forall>r < length xs. obj_to_int64 (xs ! r) = Inr (ns ! r))"
proof (induction xs arbitrary: ns)
  case Nil
  then show ?case by simp
next
  case (Cons x xs)
  from Cons.prems obtain n ms
    where n: "obj_to_int64 x = Inr n" and ms: "objs_to_int64 xs = Inr ms" and ns: "ns = n # ms"
    by (auto simp: bind_def split: sum.splits)
  from Cons.IH [OF ms] n ns show ?case
    by (auto simp: nth_Cons split: nat.splits)
qed

lemma series_len_fillna0: "series_len (fillna0 s) = series_len s"
  by (cases s) simp_all

lemma astype_int_length: "astype_int s = Inr ns \<Longrightarrow> length ns = series_len s"
  by (cases s) (auto split: if_splits dest: objs_to_int64_Inr)


lemma wf_series_len:
  "wf_dataframe df \<Longrightarrow> map_of df c = Some s \<Longrightarrow> series_len s = nrows df"
  by (auto simp: wf_dataframe_def list_all_iff dest!: map_of_SomeD)

lemma normalize_Inr:
  assumes req: "set required_columns \<subseteq> set (df_columns df)"
    and j: "map_of df ''j'' = Some sj" "astype_int (fillna0 sj) = Inr jvals"
    and i: "map_of df ''i'' = Some si" "astype_int si = Inr ivals"
    and z: "map_of df ''z_level'' = Some sz" "astype_int sz = Inr zvals"
  shows "\<exists>region x_mm y_mm z_um.
           map_of df ''region'' = Some region \<and> map_of df ''x (mm)'' = Some x_mm
         \<and> map_of df ''y (mm)'' = Some y_mm \<and> map_of df ''z (um)'' = Some z_um
         \<and> normalize_table df =
             Inr [(''region'', region), (''fov'', fov_column ivals jvals),
                  (''z_level'', SInt64 zvals),
                  (''x (mm)'', x_mm), (''y (mm)'', y_mm), (''z (um)'', z_um)]"
proof -
  from req obtain region x_mm y_mm z_um
    where r: "map_of df ''region'' = Some region" and x: "map_of df ''x (mm)'' = Some x_mm"
      and y: "map_of df ''y (mm)'' = Some y_mm" and u: "map_of df ''z (um)'' = Some z_um"
    by (metis (no_types, lifting) in_columns_map_of insert_subset list.simps(15) required_columns_def)
  have c: "check_required required_columns df = None"
    using req by (simp add: check_required_None)
  have "normalize_table df =
             Inr [(''region'', region), (''fov'', fov_column ivals jvals),
                  (''z_level'', SInt64 zvals),
                  (''x (mm)'', x_mm), (''y (mm)'', y_mm), (''z (um)'', z_um)]"
    by (simp add: normalize_table_def c getitem_setitem getitem_Some j i z r x y u bind_def Let_def)
  with r x y u show ?thesis by blast
qed











lemma astype_int_SInt64: "astype_int (SInt64 xs) = Inr xs"
  by simp


section \<open>Failures of the integer coercion\<close>















section \<open>Dense grids\<close>

lemma Max_upto_int: "(0::int) \<le> mi \<Longrightarrow> Max {0..mi} = mi"
  by (rule Max_eqI) auto

lemma cell_upper:
  assumes "(0::int) \<le> i" "i \<le> mi" "0 \<le> j" "j < mj"
  shows "i * mj + j \<le> (mi + 1) * mj - 1"
proof -
  from assms have "0 \<le> mj" by simp
  with assms(2) have "i * mj \<le> mi * mj" by (rule mult_right_mono)
  with assms(4) show ?thesis by (simp add: algebra_simps)
qed

lemma cell_lower: "(0::int) \<le> i \<Longrightarrow> 0 \<le> j \<Longrightarrow> j < mj \<Longrightarrow> 0 \<le> i * mj + j"
  by simp

lemma div_upper:
  assumes "(0::int) < mj" "x < (mi + 1) * mj"
  shows "x div mj \<le> mi"
proof -
  have "x = x div mj * mj + x mod mj" by simp
  moreover have "0 \<le> x mod mj" using assms(1) by simp
  ultimately have "x div mj * mj \<le> x" by linarith
  with assms(2) have "x div mj * mj < (mi + 1) * mj" by simp
  with assms(1) have "x div mj < mi + 1" by (simp add: mult_less_cancel_right)
  then show ?thesis by simp
qed

lemma grid_image:
  assumes "(0::int) \<le> mi" "0 < mj"
  shows "(\<lambda>(i, j). i * mj + j) ` ({0..mi} \<times> {0..<mj}) = {0..(mi + 1) * mj - 1}"
proof (intro equalityI subsetI)
  fix x assume "x \<in> (\<lambda>(i, j). i * mj + j) ` ({0..mi} \<times> {0..<mj})"
  then obtain i j where "x = i * mj + j" "0 \<le> i" "i \<le> mi" "0 \<le> j" "j < mj" by auto
  then show "x \<in> {0..(mi + 1) * mj - 1}"
    using cell_upper [of i mi j mj] by simp
next
  fix x assume "x \<in> {0..(mi + 1) * mj - 1}"
  then have x: "0 \<le> x" "x < (mi + 1) * mj" by auto
  have "0 \<le> x div mj" using x(1) assms(2) by (simp add: pos_imp_zdiv_nonneg_iff)
  moreover have "x div mj \<le> mi" using div_upper [OF assms(2) x(2)] .
  moreover have "0 \<le> x mod mj" "x mod mj < mj" using assms(2) by simp_all
  moreover have "x = (x div mj) * mj + x mod mj" by simp
  ultimately have "(x div mj, x mod mj) \<in> {0..mi} \<times> {0..<mj}"
    and "x = (\<lambda>(i, j). i * mj + j) (x div mj, x mod mj)" by auto
  then show "x \<in> (\<lambda>(i, j). i * mj + j) ` ({0..mi} \<times> {0..<mj})" by (rule rev_image_eqI)
qed

lemma cell_inj:
  assumes "(0::int) < mj" "0 \<le> j" "j < mj" "0 \<le> j'" "j' < mj"
  shows "i * mj + j = i' * mj + j' \<longleftrightarrow> i = i' \<and> j = j'"
proof
  assume e: "i * mj + j = i' * mj + j'"
  have "(i * mj + j) div mj = i" "(i' * mj + j') div mj = i'" using assms by simp_all
  with e have "i = i'" by simp
  with e show "i = i' \<and> j = j'" by simp
qed simp


lemma normalize_two_levels: "normalize_table two_levels_example = Inr two_levels_canonical"
  unfolding two_levels_example_def two_levels_canonical_def normalize_table_def
  by (simp add: required_columns_def df_columns_def getitem_def setitem_def bind_def
        fov_column_def wrap_int64_def)

text \<open>
  Claim C2, as the specification states it, fails on the specification's own example.
  Its \<open>j\<close> values are dense over \<open>[0, 2)\<close> and its \<open>i\<close> values over \<open>[0, 1]\<close>, yet
  the \<open>fov\<close> values are 0, 1, 2 and not all of 0 to 3: the cell \<open>(1, 1)\<close> was never
  acquired. And a field of view taken at two z levels has dense \<open>i\<close> and \<open>j\<close> and the
  \<open>fov\<close> value 0 twice.
\<close>

theorem fov_dense_counterexample:
  "normalize_table spec_example = Inr spec_example_canonical
   \<and> map_of spec_example ''j'' = Some (SInt64 [0, 1, 0])
   \<and> map_of spec_example ''i'' = Some (SInt64 [0, 0, 1])
   \<and> map_of spec_example_canonical ''fov'' = Some (SInt64 [0, 1, 2])
   \<and> set [0, 1, 0 :: int] = {0 ..< Max (set [0, 1, 0]) + 1}
   \<and> set [0, 0, 1 :: int] = {0 .. Max (set [0, 0, 1])}
   \<and> set [0, 1, 2 :: int] \<noteq> {0 .. (Max (set [0, 0, 1]) + 1) * (Max (set [0, 1, 0]) + 1) - 1}
   \<and> normalize_table two_levels_example = Inr two_levels_canonical
   \<and> map_of two_levels_example ''j'' = Some (SInt64 [0, 0])
   \<and> map_of two_levels_example ''i'' = Some (SInt64 [0, 0])
   \<and> map_of two_levels_canonical ''fov'' = Some (SInt64 [0, 0])
   \<and> set [0, 0 :: int] = {0 ..< Max (set [0, 0]) + 1}
   \<and> set [0, 0 :: int] = {0 .. Max (set [0, 0])}
   \<and> \<not> distinct [0, 0 :: int]"
proof -
  have a: "{0 ..< 2 :: int} = {0, 1}" "{0 .. 1 :: int} = {0, 1}" "{0 ..< 1 :: int} = {0}"
    by auto
  have c: "{0, 1, 2 :: int} \<noteq> {0 .. 3}"
  proof
    assume e: "{0, 1, 2 :: int} = {0 .. 3}"
    have "(3 :: int) \<in> {0 .. 3}" by simp
    then have "(3 :: int) \<in> {0, 1, 2}" by (simp only: e)
    then show False by simp
  qed
  have m: "map_of spec_example ''j'' = Some (SInt64 [0, 1, 0])"
    "map_of spec_example ''i'' = Some (SInt64 [0, 0, 1])"
    "map_of spec_example_canonical ''fov'' = Some (SInt64 [0, 1, 2])"
    "map_of two_levels_example ''j'' = Some (SInt64 [0, 0])"
    "map_of two_levels_example ''i'' = Some (SInt64 [0, 0])"
    "map_of two_levels_canonical ''fov'' = Some (SInt64 [0, 0])"
    by (simp_all add: spec_example_def spec_example_canonical_def two_levels_example_def
          two_levels_canonical_def)
  have d: "set [0, 1, 0 :: int] = {0 ..< Max (set [0, 1, 0]) + 1}"
    "set [0, 0, 1 :: int] = {0 .. Max (set [0, 0, 1])}"
    "set [0, 0 :: int] = {0 ..< Max (set [0, 0]) + 1}"
    "set [0, 0 :: int] = {0 .. Max (set [0, 0])}"
    by (simp_all add: a insert_commute)
  have e: "set [0, 1, 2 :: int] \<noteq>
             {0 .. (Max (set [0, 0, 1]) + 1) * (Max (set [0, 1, 0]) + 1) - 1}"
    using c by simp
  have nd: "\<not> distinct [0, 0 :: int]" by simp
  show ?thesis
    by (intro conjI normalize_spec_example normalize_two_levels m d e nd)
qed

lemma coerced_lengths:
  assumes wf: "wf_dataframe df"
    and j: "map_of df ''j'' = Some sj" and jv: "astype_int (fillna0 sj) = Inr jvals"
    and i: "map_of df ''i'' = Some si" and iv: "astype_int si = Inr ivals"
  shows "length jvals = nrows df" "length ivals = nrows df"
  using astype_int_length [OF jv] wf_series_len [OF wf j] astype_int_length [OF iv]
    wf_series_len [OF wf i]
  by (simp_all add: series_len_fillna0)

lemma fov_column_grid:
  assumes len: "length ivals = length jvals"
    and grid: "set (zip ivals jvals) = {0..mi} \<times> {0..<mj}"
    and mi: "0 \<le> mi" and mj: "0 < mj" and range: "(mi + 1) * mj \<le> 2 ^ 63"
  shows "Max (set ivals) = mi" "Max (set jvals) + 1 = mj"
    "fov_column ivals jvals = SInt64 (map (\<lambda>(i, j). i * mj + j) (zip ivals jvals))"
proof -
  have si: "set ivals = fst ` set (zip ivals jvals)"
    using len by (metis map_fst_zip set_map)
  have sj: "set jvals = snd ` set (zip ivals jvals)"
    using len by (metis map_snd_zip set_map)
  have "(0, 0) \<in> set (zip ivals jvals)" using mi mj by (simp add: grid)
  then have ne: "jvals \<noteq> []" by auto
  have si': "set ivals = {0..mi}" using mj by (auto simp: si grid)
  have sj': "set jvals = {0..mj - 1}" using mi by (force simp: sj grid)
  show m1: "Max (set ivals) = mi" using mi by (simp add: si' Max_upto_int)
  show m2: "Max (set jvals) + 1 = mj" using mj by (simp add: sj' Max_upto_int)
  have cell: "wrap_int64 (wrap_int64 (a * wrap_int64 (Max (set jvals) + 1)) + b) = a * mj + b"
    if "(a, b) \<in> set (zip ivals jvals)" for a b
  proof -
    from that grid have ab: "0 \<le> a" "a \<le> mi" "0 \<le> b" "b < mj" by auto
    have "0 \<le> a * mj + b" using ab mj by simp
    moreover have "a * mj + b \<le> (mi + 1) * mj - 1" using cell_upper [OF ab] .
    ultimately have "in_int64 (a * mj + b)" using range by (simp add: in_int64_def)
    then have "wrap_int64 (a * (Max (set jvals) + 1) + b) = a * mj + b"
      by (simp only: m2 wrap_int64_id)
    then show ?thesis by (simp only: fov_cell)
  qed
  have "map2 (\<lambda>i j. wrap_int64 (wrap_int64 (i * wrap_int64 (Max (set jvals) + 1)) + j)) ivals jvals
          = map (\<lambda>(i, j). i * mj + j) (zip ivals jvals)"
    by (rule map_cong) (auto simp: cell)
  then show "fov_column ivals jvals = SInt64 (map (\<lambda>(i, j). i * mj + j) (zip ivals jvals))"
    by (simp add: fov_column_def series_max_Max [OF ne])
qed

text \<open>
  Claim C2, amended. Let the pairs \<open>(i, j)\<close> that occur in the table be exactly the
  cells of the grid \<open>{0..max_i} \<times> {0..<max_j}\<close>, of at most \<open>2 ^ 63\<close> cells. Then
  \<open>max_i\<close> is the largest \<open>i\<close>, \<open>max_j\<close> the largest \<open>j\<close> plus one, the set of \<open>fov\<close>
  values is exactly \<open>{0..(max_i + 1) * max_j - 1}\<close>, and two rows have the same \<open>fov\<close>
  exactly when they have the same \<open>i\<close> and the same \<open>j\<close>.
\<close>

theorem fov_full_grid:
  assumes wf: "wf_dataframe df"
    and req: "set required_columns \<subseteq> set (df_columns df)"
    and j: "map_of df ''j'' = Some sj" and jv: "astype_int (fillna0 sj) = Inr jvals"
    and i: "map_of df ''i'' = Some si" and iv: "astype_int si = Inr ivals"
    and z: "map_of df ''z_level'' = Some sz" and zv: "astype_int sz = Inr zvals"
    and grid: "set (zip ivals jvals) = {0..mi} \<times> {0..<mj}"
    and mi: "0 \<le> mi" and mj: "0 < mj" and range: "(mi + 1) * mj \<le> 2 ^ 63"
  shows "Max (set ivals) = mi \<and> Max (set jvals) + 1 = mj
       \<and> (\<exists>out fovs. normalize_table df = Inr out \<and> map_of out ''fov'' = Some (SInt64 fovs)
             \<and> length fovs = nrows df
             \<and> set fovs = {0 .. (mi + 1) * mj - 1}
             \<and> (\<forall>r < nrows df. \<forall>s < nrows df.
                   fovs ! r = fovs ! s \<longleftrightarrow> ivals ! r = ivals ! s \<and> jvals ! r = jvals ! s))"
proof -
  note len = coerced_lengths [OF wf j jv i iv]
  have l: "length ivals = length jvals" using len by simp
  note g = fov_column_grid [OF l grid mi mj range]
  let ?fovs = "map (\<lambda>(i, j). i * mj + j) (zip ivals jvals)"
  from normalize_Inr [OF req j jv i iv z zv] g(3)
  obtain out where n: "normalize_table df = Inr out" and f: "map_of out ''fov'' = Some (SInt64 ?fovs)"
    by auto
  have lf: "length ?fovs = nrows df" using len by simp
  have sf: "set ?fovs = {0 .. (mi + 1) * mj - 1}"
    using grid_image [OF mi mj] by (simp add: grid)
  have inj: "?fovs ! r = ?fovs ! s \<longleftrightarrow> ivals ! r = ivals ! s \<and> jvals ! r = jvals ! s"
    if r: "r < nrows df" and s: "s < nrows df" for r s
  proof -
    have "(ivals ! r, jvals ! r) \<in> set (zip ivals jvals)"
      using r len by (metis in_set_zip fst_conv snd_conv)
    then have br: "0 \<le> jvals ! r" "jvals ! r < mj" using grid by auto
    have "(ivals ! s, jvals ! s) \<in> set (zip ivals jvals)"
      using s len by (metis in_set_zip fst_conv snd_conv)
    then have bs: "0 \<le> jvals ! s" "jvals ! s < mj" using grid by auto
    show ?thesis
      using r s len cell_inj [OF mj br bs, of "ivals ! r" "ivals ! s"] by simp
  qed
  show ?thesis
    using g(1) g(2) n f lf sf inj by blast
qed


lemma grid_example_wf: "wf_dataframe grid_example"
  by (simp add: wf_dataframe_def grid_example_def df_columns_def)

lemma grid_example_req: "set required_columns \<subseteq> set (df_columns grid_example)"
  by (simp add: required_columns_def grid_example_def df_columns_def)

lemma grid_example_cols:
  "map_of grid_example ''j'' = Some (SInt64 [0, 1, 0, 1, 1])"
  "map_of grid_example ''i'' = Some (SInt64 [0, 0, 1, 1, 1])"
  "map_of grid_example ''z_level'' = Some (SInt64 [0, 0, 0, 0, 1])"
  by (simp_all add: grid_example_def)

lemma grid_example_grid:
  "set (zip [0, 0, 1, 1, 1] [0, 1, 0, 1, 1 :: int]) = {0 .. 1 :: int} \<times> {0 ..< 2}"
proof -
  have a: "{0 ..< 2 :: int} = {0, 1}" "{0 .. 1 :: int} = {0, 1}" by auto
  show ?thesis by (auto simp: a)
qed

lemma astype_fillna0_SInt64: "astype_int (fillna0 (SInt64 xs)) = Inr xs"
  by simp

theorem fov_full_grid_witness:
  "wf_dataframe grid_example
   \<and> set required_columns \<subseteq> set (df_columns grid_example)
   \<and> map_of grid_example ''j'' = Some (SInt64 [0, 1, 0, 1, 1])
   \<and> map_of grid_example ''i'' = Some (SInt64 [0, 0, 1, 1, 1])
   \<and> map_of grid_example ''z_level'' = Some (SInt64 [0, 0, 0, 0, 1])
   \<and> set (zip [0, 0, 1, 1, 1] [0, 1, 0, 1, 1 :: int]) = {0 .. 1 :: int} \<times> {0 ..< 2}
   \<and> (0 :: int) \<le> 1 \<and> (0 :: int) < 2 \<and> (1 + 1) * 2 \<le> (2 ^ 63 :: int)
   \<and> (\<exists>out fovs. normalize_table grid_example = Inr out
         \<and> map_of out ''fov'' = Some (SInt64 fovs)
         \<and> length fovs = nrows grid_example
         \<and> set fovs = {0 .. (1 + 1) * 2 - 1})"
proof -
  have r: "(0 :: int) \<le> 1" "(0 :: int) < 2" "(1 + 1) * 2 \<le> (2 ^ 63 :: int)" by simp_all
  from fov_full_grid [OF grid_example_wf grid_example_req grid_example_cols(1)
      astype_fillna0_SInt64 grid_example_cols(2) astype_int_SInt64 grid_example_cols(3)
      astype_int_SInt64 grid_example_grid r]
  have c: "\<exists>out fovs. normalize_table grid_example = Inr out
         \<and> map_of out ''fov'' = Some (SInt64 fovs)
         \<and> length fovs = nrows grid_example
         \<and> set fovs = {0 .. (1 + 1) * 2 - 1}"
    by blast
  show ?thesis
    by (intro conjI grid_example_wf grid_example_req grid_example_cols grid_example_grid r c)
qed

section \<open>The name of the cache file\<close>

lemma folder_hash_mod: "folder_hash py d = str_hash py d mod 2 ^ 32"
proof -
  have "(4294967295 :: int) = mask 32" by (simp add: mask_eq_exp_minus_1)
  then have "folder_hash py d = take_bit 32 (str_hash py d)"
    by (simp only: folder_hash_def take_bit_eq_mask)
  then show ?thesis by (simp add: take_bit_eq_mod)
qed

lemma folder_hash_range: "folder_hash py d \<in> {0 ..< 2 ^ 32}"
  by (simp add: folder_hash_mod)

lemma folder_hash_collision:
  "\<exists>m n. m < n \<and> n \<le> 2 ^ 32
     \<and> folder_hash py (replicate m CHR ''a'') = folder_hash py (replicate n CHR ''a'')"
proof -
  let ?f = "\<lambda>n :: nat. folder_hash py (replicate n CHR ''a'')"
  let ?A = "{0 .. 2 ^ 32 :: nat}"
  have "?f ` ?A \<subseteq> {0 ..< 2 ^ 32 :: int}" using folder_hash_range by blast
  then have "card (?f ` ?A) \<le> card {0 ..< 2 ^ 32 :: int}"
    by (rule card_mono [rotated]) simp
  also have "\<dots> < card ?A" by simp
  finally have "\<not> inj_on ?f ?A" by (rule pigeonhole)
  then obtain m n where mn: "m \<in> ?A" "n \<in> ?A" "m \<noteq> n" "?f m = ?f n"
    by (auto simp: inj_on_def)
  show ?thesis
  proof (cases "m < n")
    case True
    with mn show ?thesis by auto
  next
    case False
    with mn have "n < m" by simp
    with mn show ?thesis by (metis atLeastAtMost_iff)
  qed
qed

lemma output_coords_file_cong:
  "folder_hash py a = folder_hash py b \<Longrightarrow> output_coords_file py a = output_coords_file py b"
  by (simp add: output_coords_file_def)

lemma output_example:
  "output_coords_file example_py ''/data/scan'' =
     ''/home/user/.image_stitcher_processed/coordinates_processed_4294967291.csv''"
  by (simp add: output_coords_file_def processed_dir_def folder_hash_mod example_py_def
        os_path_join_def py_str_int_def str_nat.simps)

lemma output_other:
  "output_coords_file restarted_py ''/data/scan'' =
     ''/home/user/.image_stitcher_processed/coordinates_processed_77.csv''"
  by (simp add: output_coords_file_def processed_dir_def folder_hash_mod example_py_def restarted_py_def
        os_path_join_def py_str_int_def str_nat.simps)

text \<open>
  Claim C4 fails on the code, whose own comment promises a unique file name based on the
  input folder name. The name is not unique: whatever the built-in hash is, two of the
  folder names \<open>a\<close>, \<open>aa\<close>, \<open>aaa\<close>, ... of at most \<open>2 ^ 32\<close> characters (and the
  empty name) get the same cache file, because only 32 bits of the hash are kept. And
  the name is not fixed by the folder: it follows the built-in hash, which changes from
  one interpreter process to the next, so that two processes of the same user can use
  different cache files for the folder \<open>/data/scan\<close>.
\<close>

theorem cache_file_name_not_unique:
  "(\<exists>m n. m < n \<and> n \<le> 2 ^ 32
      \<and> output_coords_file py (replicate m CHR ''a'') =
          output_coords_file py (replicate n CHR ''a''))
   \<and> output_coords_file example_py ''/data/scan'' \<noteq>
       output_coords_file restarted_py ''/data/scan''"
proof -
  from folder_hash_collision [of py] obtain m n
    where mn: "m < n" "n \<le> 2 ^ 32"
      and h: "folder_hash py (replicate m CHR ''a'') = folder_hash py (replicate n CHR ''a'')"
    by blast
  from h have "output_coords_file py (replicate m CHR ''a'') =
          output_coords_file py (replicate n CHR ''a'')"
    by (rule output_coords_file_cong)
  with mn have "\<exists>m n. m < n \<and> n \<le> 2 ^ 32
      \<and> output_coords_file py (replicate m CHR ''a'') =
          output_coords_file py (replicate n CHR ''a'')"
    by blast
  moreover have "output_coords_file example_py ''/data/scan'' \<noteq>
       output_coords_file restarted_py ''/data/scan''"
    by (simp add: output_example output_other)
  ultimately show ?thesis by blast
qed

end
